theory Spec2Isabelle
  imports Complex_Main "HOL-Library.Monad_Syntax"
begin

section \<open>The biomarker-to-parameter derivation engine (calculations.py)\<close>

text \<open>
  The embedding follows \<^verbatim>\<open>calculations.py\<close> function by function.
  \<^item> Python numbers are modelled as \<^typ>\<open>real\<close>: arithmetic is exact, there is no
    rounding, no infinity and no NaN.
  \<^item> A Python dict keyed by strings is a map \<^typ>\<open>string \<rightharpoonup> real\<close>; the subscript
    \<^verbatim>\<open>d[k]\<close> is the lookup \<open>d k\<close>, whose value \<open>None\<close> stands for the KeyError, and
    \<^verbatim>\<open>d.get(k, default)\<close> is \<open>dict_get\<close>.
  \<^item> A function that can raise returns an option: \<open>None\<close> is the raised exception
    (KeyError or ZeroDivisionError).
  \<^item> The dicts with a fixed set of keys that the functions build (\<^verbatim>\<open>scores\<close>,
    \<^verbatim>\<open>organs\<close>, \<^verbatim>\<open>parameters\<close>, the returned \<^verbatim>\<open>out\<close>) are records with one field
    per key.
\<close>

subsection \<open>Dictionaries and division\<close>

type_synonym biomarker_dict = "string \<rightharpoonup> real"

definition dict_get :: "(string \<rightharpoonup> 'a) \<Rightarrow> string \<Rightarrow> 'a \<Rightarrow> 'a" where
  "dict_get d k dflt = (case d k of Some v \<Rightarrow> v | None \<Rightarrow> dflt)"

text \<open>Python's \<^verbatim>\<open>a / b\<close> on numbers: ZeroDivisionError when the divisor is zero.\<close>

definition py_div :: "real \<Rightarrow> real \<Rightarrow> real option" where
  "py_div a b = (if b = 0 then None else Some (a / b))"

subsection \<open>The catalog and the reference table\<close>

text \<open>
  \<^verbatim>\<open>ALL_BIOMARKERS\<close> (biomarkers_data.py) is a dict from key to display metadata; the
  calculation only iterates over its keys, so the model keeps the keys, in insertion
  order: tumor (6), immune (12), resistance (16), metabolic (8), organ (5).
\<close>

definition ALL_BIOMARKERS :: "string list" where
  "ALL_BIOMARKERS =
    [''ca153'', ''ca2729'', ''cea'', ''tk1'', ''ctdna'', ''esr1_protein'',
     ''cd8'', ''cd4'', ''nk'', ''ifn_gamma'', ''il10'', ''tnf_alpha'',
     ''tgf_beta'', ''pdl1_ctc'', ''hla_dr'', ''ctc'', ''ang2'', ''lymphocytes'',
     ''esr1_mutations'', ''pgr'', ''brca'', ''pik3ca'', ''tp53'', ''her2_mutations'',
     ''her2_circ'', ''mdr1'', ''cyp2d6'', ''survivin'', ''hsp'', ''mir200'',
     ''exosomes'', ''vegf'', ''mrp1'', ''ki67'',
     ''glucose'', ''lactate'', ''ldh'', ''albumin'', ''beta_hydroxybutyrate'',
     ''blood_ph'', ''folate'', ''vitamin_d'',
     ''creatinine'', ''bun'', ''alt'', ''ast'', ''bilirubin'']"

definition REFERENCE_VALUES_FOR_IMPUTATION :: "(string \<times> real) list" where
  "REFERENCE_VALUES_FOR_IMPUTATION =
    [(''ca153'', 15.65), (''ca2729'', 19.0), (''cea'', 1.5), (''tk1'', 1.0),
     (''ctdna'', 0.25), (''esr1_protein'', 3.0),
     (''cd8'', 700.0), (''cd4'', 1050.0), (''nk'', 345.0), (''ifn_gamma'', 2.0),
     (''il10'', 2.5), (''tnf_alpha'', 4.0),
     (''tgf_beta'', 2.5), (''pdl1_ctc'', 0.5), (''hla_dr'', 80.0), (''ctc'', 2.5),
     (''ang2'', 2000.0), (''lymphocytes'', 2000.0),
     (''esr1_mutations'', 0.0), (''pgr'', 10.0), (''brca'', 0.0), (''pik3ca'', 0.0),
     (''tp53'', 0.0), (''her2_mutations'', 0.0),
     (''her2_circ'', 2.5), (''mdr1'', 75.0), (''cyp2d6'', 1.5), (''survivin'', 0.25),
     (''hsp'', 7.5), (''mir200'', 2.5),
     (''exosomes'', 50.0), (''vegf'', 200.0), (''mrp1'', 50.0), (''ki67'', 15.0),
     (''glucose'', 95.0), (''lactate'', 1.1), (''ldh'', 125.0), (''albumin'', 4.0),
     (''beta_hydroxybutyrate'', 0.25),
     (''blood_ph'', 7.4), (''folate'', 10.0), (''vitamin_d'', 40.0),
     (''creatinine'', 1.0), (''bun'', 15.0), (''alt'', 25.0), (''ast'', 25.0),
     (''bilirubin'', 1.0)]"

text \<open>
  \<^verbatim>\<open>CORE_PANEL_PARAMETER_COVERAGE\<close>: the static label of each parameter, copied into the
  output when a panel selector was given.
\<close>

definition CORE_PANEL_PARAMETER_COVERAGE :: "(string \<times> string) list" where
  "CORE_PANEL_PARAMETER_COVERAGE =
    [(''lambda1'', ''core_driven''), (''lambda2'', ''partly_core''),
     (''lambdaR1'', ''partly_core''), (''lambdaR2'', ''partly_core''),
     (''K'', ''partly_core''), (''beta1'', ''core_driven''), (''beta2'', ''partly_core''),
     (''phi1'', ''core_driven''), (''phi2'', ''partly_core''), (''phi3'', ''core_driven''),
     (''deltaI'', ''core_driven''), (''omegaR1'', ''partly_core''),
     (''omegaR2'', ''partly_core''), (''etaE'', ''partly_core''), (''etaC'', ''partly_core''),
     (''etaH'', ''partly_core''), (''etaI'', ''core_driven''), (''kel'', ''imputed_only''),
     (''k_metabolism'', ''imputed_only''), (''k_clearance'', ''imputed_only''),
     (''alphaA'', ''imputed_only''), (''deltaA'', ''imputed_only''),
     (''kappaQ'', ''core_driven''), (''lambdaQ'', ''core_driven''),
     (''kappaS'', ''core_driven''), (''deltaS'', ''core_driven''),
     (''gamma'', ''imputed_only''), (''deltaP'', ''core_driven''), (''mu'', ''partly_core''),
     (''nu'', ''partly_core''), (''deltaG'', ''partly_core''), (''kappaM'', ''partly_core''),
     (''deltaM'', ''partly_core''), (''kappaH'', ''partly_core''),
     (''deltaH'', ''imputed_only''), (''rho1'', ''core_driven''), (''rho2'', ''partly_core''),
     (''G'', ''partly_core'')]"

subsection \<open>get_biomarkers_for_calculation\<close>

text \<open>
  The selector \<^verbatim>\<open>core_markers\<close> is \<open>None\<close> or a list of keys. Both branches of the
  source are the same dict comprehension over the keys of \<^verbatim>\<open>ALL_BIOMARKERS\<close>:
  \<^verbatim>\<open>{k: biomarkers.get(k, REFERENCE_VALUES_FOR_IMPUTATION.get(k, 0.0)) for k in ALL_BIOMARKERS}\<close>.
\<close>

definition get_biomarkers_for_calculation ::
    "biomarker_dict \<Rightarrow> string list option \<Rightarrow> biomarker_dict" where
  "get_biomarkers_for_calculation biomarkers core_markers =
     (if (case core_markers of None \<Rightarrow> True | Some cm \<Rightarrow> length cm = 0) then
        map_of (map (\<lambda>k. (k, dict_get biomarkers k
                              (dict_get (map_of REFERENCE_VALUES_FOR_IMPUTATION) k 0.0)))
                    ALL_BIOMARKERS)
      else
        map_of (map (\<lambda>k. (k, dict_get biomarkers k
                              (dict_get (map_of REFERENCE_VALUES_FOR_IMPUTATION) k 0.0)))
                    ALL_BIOMARKERS))"

subsection \<open>calculate_composite_scores\<close>

record composite_scores =
  s_tumor :: real
  s_prolif :: real
  s_immune :: real
  s_suppress :: real
  G :: real
  s_genetic :: real
  s_metabolic :: real
  s_stress :: real
  s_activation :: real
  f_resist1 :: real
  f_resist2 :: real
  s_quiescence :: real
  f_metastatic :: real

definition calculate_composite_scores :: "biomarker_dict \<Rightarrow> composite_scores option" where
  "calculate_composite_scores biomarkers = do {
     ca153 \<leftarrow> biomarkers ''ca153'';
     ca2729 \<leftarrow> biomarkers ''ca2729'';
     cea \<leftarrow> biomarkers ''cea'';
     ctc \<leftarrow> biomarkers ''ctc'';
     ctdna \<leftarrow> biomarkers ''ctdna'';
     let v_s_tumor = (1/5) * (ca153 / 31.3 + ca2729 / 38 + cea / 3.0 + ctc / 5 + ctdna / 1.0);
     tk1 \<leftarrow> biomarkers ''tk1'';
     glucose \<leftarrow> biomarkers ''glucose'';
     lactate \<leftarrow> biomarkers ''lactate'';
     survivin \<leftarrow> biomarkers ''survivin'';
     let v_s_prolif = (1/4) * (tk1 / 2.0 + glucose / 95 + lactate / 2.2 + survivin / 0.5);
     cd8 \<leftarrow> biomarkers ''cd8'';
     cd4 \<leftarrow> biomarkers ''cd4'';
     nk \<leftarrow> biomarkers ''nk'';
     ifn_gamma \<leftarrow> biomarkers ''ifn_gamma'';
     let v_s_immune = 0.4 * (cd8 / 700) + 0.3 * (cd4 / 1050) + 0.2 * (nk / 345)
                      + 0.1 * (ifn_gamma / 2.0);
     il10 \<leftarrow> biomarkers ''il10'';
     tgf_beta \<leftarrow> biomarkers ''tgf_beta'';
     pdl1_ctc \<leftarrow> biomarkers ''pdl1_ctc'';
     let v_s_suppress = (1/3) * (il10 / 5.0 + tgf_beta / 2.5 + pdl1_ctc / 1.0);
     pik3ca \<leftarrow> biomarkers ''pik3ca'';
     tp53 \<leftarrow> biomarkers ''tp53'';
     let v_G = max 0.1 (min 1.0
                 (1 - 0.3 * (ctdna / 1.0) - 0.2 * (pik3ca / 10) - 0.2 * (tp53 / 10)));
     let v_s_genetic = (1/3) * (ctdna / 1.0 + pik3ca / 10 + tp53 / 10);
     ldh \<leftarrow> biomarkers ''ldh'';
     let v_s_metabolic = (1/3) * (glucose / 95 + lactate / 2.2 + ldh / 250);
     let v_s_stress = v_s_metabolic;
     let v_s_activation = (1/2) * (ifn_gamma / 5 + cd4 / 1200);
     esr1_mutations \<leftarrow> biomarkers ''esr1_mutations'';
     pgr \<leftarrow> biomarkers ''pgr'';
     let v_f_resist1 = max 0.1 (min 2.0
                 ((1/4) * (esr1_mutations / 8 + pgr / 20 + pik3ca / 5 + survivin / 6)));
     her2_mutations \<leftarrow> biomarkers ''her2_mutations'';
     mdr1 \<leftarrow> biomarkers ''mdr1'';
     hsp \<leftarrow> biomarkers ''hsp'';
     let v_f_resist2 = max 0.1 (min 2.0
                 ((1/4) * (her2_mutations / 10 + mdr1 / 150 + survivin / 6 + hsp / 10)));
     let nutrient_stress = max 0 ((100 - glucose) / 100);
     let metabolic_stress = min 1.0 (lactate / 4.0);
     let v_s_quiescence = (nutrient_stress + metabolic_stress) / 2;
     mir200 \<leftarrow> biomarkers ''mir200'';
     let f_emt = max 0 ((5 - mir200) / 5);
     exosomes \<leftarrow> biomarkers ''exosomes'';
     let v_f_metastatic = (1/3) * (ctc / 20 + f_emt + exosomes / 100);
     Some \<lparr> s_tumor = v_s_tumor, s_prolif = v_s_prolif, s_immune = v_s_immune,
            s_suppress = v_s_suppress, G = v_G, s_genetic = v_s_genetic,
            s_metabolic = v_s_metabolic, s_stress = v_s_stress,
            s_activation = v_s_activation, f_resist1 = v_f_resist1,
            f_resist2 = v_f_resist2, s_quiescence = v_s_quiescence,
            f_metastatic = v_f_metastatic \<rparr>
   }"

subsection \<open>calculate_organ_functions\<close>

record organ_functions =
  f_liver :: real
  f_kidney :: real
  f_clearance :: real

definition calculate_organ_functions :: "biomarker_dict \<Rightarrow> organ_functions option" where
  "calculate_organ_functions biomarkers = do {
     alt \<leftarrow> biomarkers ''alt'';
     alt_ratio \<leftarrow> py_div 40 (max alt 5);
     let alt_factor = max 0.2 (min 1.2 alt_ratio);
     ast \<leftarrow> biomarkers ''ast'';
     ast_ratio \<leftarrow> py_div 45 (max ast 8);
     let ast_factor = max 0.2 (min 1.2 ast_ratio);
     bilirubin \<leftarrow> biomarkers ''bilirubin'';
     bilirubin_ratio \<leftarrow> py_div 1.2 (max bilirubin 0.1);
     let bilirubin_factor = max 0.5 (min 1.5 bilirubin_ratio);
     let v_f_liver = (alt_factor + ast_factor + bilirubin_factor) / 3;
     creatinine \<leftarrow> biomarkers ''creatinine'';
     creatinine_ratio \<leftarrow> py_div 1.2 (max creatinine 0.5);
     let creatinine_factor = max 0.3 (min 1.3 creatinine_ratio);
     bun \<leftarrow> biomarkers ''bun'';
     bun_ratio \<leftarrow> py_div 20 (max bun 5);
     let bun_factor = max 0.3 (min 1.3 bun_ratio);
     let v_f_kidney = (creatinine_factor + bun_factor) / 2;
     Some \<lparr> f_liver = v_f_liver, f_kidney = v_f_kidney,
            f_clearance = v_f_liver * v_f_kidney \<rparr>
   }"

subsection \<open>calculate_all_parameters\<close>

text \<open>
  The \<^verbatim>\<open>parameters\<close> dict: the 37 model parameters, the genetic-stability score
  stored under the key \<^verbatim>\<open>'G'\<close> (field \<open>param_G\<close>, since \<open>G\<close> is the field of the
  scores), and \<^verbatim>\<open>alpha_acid\<close>.
\<close>

record parameter_set =
  param_G :: real
  lambda1 :: real
  lambda2 :: real
  lambdaR1 :: real
  lambdaR2 :: real
  K :: real
  beta1 :: real
  beta2 :: real
  phi1 :: real
  phi2 :: real
  phi3 :: real
  deltaI :: real
  omegaR1 :: real
  omegaR2 :: real
  etaE :: real
  etaC :: real
  etaH :: real
  etaI :: real
  kel :: real
  k_metabolism :: real
  k_clearance :: real
  alphaA :: real
  deltaA :: real
  kappaQ :: real
  lambdaQ :: real
  kappaS :: real
  deltaS :: real
  gamma :: real
  deltaP :: real
  mu :: real
  nu :: real
  deltaG :: real
  kappaM :: real
  deltaM :: real
  kappaH :: real
  deltaH :: real
  rho1 :: real
  rho2 :: real
  alpha_acid :: real

text \<open>
  The body of \<^verbatim>\<open>calculate_all_parameters\<close> is modelled in three consecutive blocks:
  \<open>derive_parameters\<close> is the block that fills \<^verbatim>\<open>parameters\<close> (from
  \<^verbatim>\<open>parameters = {}\<close> to the assignment of \<^verbatim>\<open>alpha_acid\<close>), \<open>enforce_constraints\<close>
  is the block under "Validate biological constraints", and \<open>calculate_all_parameters\<close>
  is the function itself, which runs the resolver, the two calculators and the two blocks
  and builds \<^verbatim>\<open>out\<close>.
\<close>

definition derive_parameters ::
    "biomarker_dict \<Rightarrow> composite_scores \<Rightarrow> organ_functions \<Rightarrow> parameter_set option" where
  "derive_parameters biomarkers_use scores organs = do {
     let v_G = G scores;
     let v_lambda1 = max 0.01 (min 0.15 (0.04 * (1 + 1.5 * s_prolif scores)));
     let v_lambda2 = max 0.005 (min 0.1 (0.6 * v_lambda1 * (1 + 0.5 * f_resist1 scores)));
     let v_lambdaR1 = max 0.003 (min 0.05 (0.4 * v_lambda1 * f_resist1 scores));
     let v_lambdaR2 = max 0.001 (min 0.03 (0.25 * v_lambda1 * (1 - 0.3 * f_resist2 scores)));
     let v_K = max 100 (min 15000 (s_tumor scores * 2000));
     let v_beta1 = max 0.001 (min 0.1 (0.02 * s_immune scores * (1 - s_suppress scores)));
     let v_beta2 = max 0.01 (min 0.5 (0.05 + 0.15 * s_suppress scores));
     let v_phi1 = max 0.01 (min 0.2 (0.05 + 0.1 * s_activation scores));
     let v_phi2 = max 0.005 (min 0.1 (0.01 + 0.03 * (s_tumor scores / 2)));
     il10 \<leftarrow> biomarkers_use ''il10'';
     let v_phi3 = max 0.005 (min 0.15 (0.02 + 0.08 * (il10 / 15)));
     let v_deltaI = max 0.02 (min 0.3 (0.05 + 0.1 * s_stress scores));
     let v_omegaR1 = max 0.0001 (min 0.01 (0.002 * s_genetic scores * s_stress scores));
     let v_omegaR2 = max 0.0001 (min 0.008 (0.001 * s_genetic scores * s_stress scores));
     let eta_lo = 0.1;
     let eta_hi = 0.95;
     albumin \<leftarrow> biomarkers_use ''albumin'';
     let albumin_component = albumin / 4.0;
     glucose \<leftarrow> biomarkers_use ''glucose'';
     let glucose_component = max 0.5 (1 - 0.3 * \<bar>95 - glucose\<bar> / 95);
     let f_general = (albumin_component + glucose_component) / 2;
     let f_organs = (f_liver organs + f_kidney organs) / 2;
     esr1_protein \<leftarrow> biomarkers_use ''esr1_protein'';
     let f_receptor = min 1.0 (esr1_protein / 6.0);
     cyp2d6 \<leftarrow> biomarkers_use ''cyp2d6'';
     let f_CYP2D6 = min 1.0 (cyp2d6 / 2.0);
     let f_metabolism = (f_liver organs + f_CYP2D6 + f_general) / 3;
     esr1_mutations \<leftarrow> biomarkers_use ''esr1_mutations'';
     let resistance_component = 0.6 * (esr1_mutations / 8) + 0.4 * s_genetic scores;
     let f_resist_hormone = 1 - min 0.9 resistance_component;
     let v_etaE = max eta_lo (min eta_hi (f_receptor * f_metabolism * f_resist_hormone));
     let v_etaC = max eta_lo (min eta_hi
                    (f_general * f_organs * (1 - 0.7 * f_resist2 scores)));
     her2_circ \<leftarrow> biomarkers_use ''her2_circ'';
     let her2_circ_component = min 1.0 (her2_circ / 5.0);
     her2_mutations \<leftarrow> biomarkers_use ''her2_mutations'';
     let her2_mut_penalty = 1 - 0.6 * (her2_mutations / 10);
     let f_HER2 = her2_circ_component * her2_mut_penalty;
     let v_etaH = max eta_lo (min eta_hi (f_HER2 * f_organs * (1 - 0.5 * f_resist2 scores)));
     pdl1_ctc \<leftarrow> biomarkers_use ''pdl1_ctc'';
     let f_PDL1 = min 1.0 (pdl1_ctc / 3.0);
     cd8 \<leftarrow> biomarkers_use ''cd8'';
     let cd8_component = cd8 / 700;
     cd4 \<leftarrow> biomarkers_use ''cd4'';
     let cd4_component = cd4 / 1050;
     ifn_gamma \<leftarrow> biomarkers_use ''ifn_gamma'';
     let ifn_component = ifn_gamma / 2.0;
     let il10_component = max 0.0 (1.0 - il10 / 15);
     let f_immune_ctx = (cd8_component + cd4_component + ifn_component + il10_component) / 4;
     let v_etaI = max eta_lo (min eta_hi (f_PDL1 * f_immune_ctx * f_general));
     kel_ratio \<leftarrow> py_div 0.1 (f_clearance organs);
     let v_kel = max 0.05 (min 0.3 kel_ratio);
     let v_k_metabolism = max 0.02 (min 0.2 (0.05 * f_liver organs));
     let v_k_clearance = max 0.1 (min 0.5 (0.2 * f_clearance organs));
     vegf \<leftarrow> biomarkers_use ''vegf'';
     ang2 \<leftarrow> biomarkers_use ''ang2'';
     let v_alphaA = max 0.001 (min 0.1 (0.02 * (1 + vegf / 400) * (1 + ang2 / 3000)));
     let v_deltaA = max 0.05 (min 0.2 (0.1 * f_clearance organs));
     let v_kappaQ = max 0.001 (min 0.05 (0.005 + 0.02 * s_quiescence scores));
     let v_lambdaQ = max 0.0005 (min 0.02 (0.002 + 0.01 * (1 - s_quiescence scores)));
     let v_kappaS = max 0.001 (min 0.04 (0.002 + 0.01 * s_stress scores));
     let v_deltaS = max 0.02 (min 0.1 (0.05 * s_immune scores));
     let v_gamma = max 0.0001 (min 0.01 (0.002 * f_metastatic scores));
     let v_deltaP = max 0.02 (min 0.1 (0.05 + 0.03 * s_immune scores));
     let v_mu = max 0.001 (min 0.05 (0.01 * (1 + 1.5 * s_genetic scores)));
     let v_nu = max 0.0001 (min 0.01 (0.002 * s_genetic scores * (1 + s_stress scores)));
     let brca_factor = 1.0 - min 0.5 (dict_get biomarkers_use ''brca'' 0 / 2.0);
     let v_deltaG = max 0.001 (min 0.05 (0.01 * brca_factor * G scores));
     let beta_hydroxybutyrate_factor =
           max 0.5 (1 - dict_get biomarkers_use ''beta_hydroxybutyrate'' 0 / 2.0);
     let v_kappaM = max 0.001 (min 0.1
                      (0.02 * s_metabolic scores * beta_hydroxybutyrate_factor));
     let v_deltaM = max 0.001 (min 0.05 (0.01 * (1 - 0.5 * s_metabolic scores)));
     let v_kappaH = max 0.001 (min 0.1 (0.02 * max 0 (s_tumor scores - 0.5)));
     let v_deltaH = max 0.01 (min 0.1 (0.05 * (1 + f_clearance organs)));
     let v_rho1 = max 0.6 (min 0.9 (0.75 + 0.15 * s_immune scores));
     let v_rho2 = max 0.3 (min 0.6 (0.45 - 0.15 * f_resist2 scores));
     blood_ph \<leftarrow> biomarkers_use ''blood_ph'';
     let ph_deviation = max 0.0 (7.4 - blood_ph);
     let v_alpha_acid = max 0.01 (min 0.5 (2.0 * ph_deviation));
     Some \<lparr> param_G = v_G, lambda1 = v_lambda1, lambda2 = v_lambda2,
            lambdaR1 = v_lambdaR1, lambdaR2 = v_lambdaR2, K = v_K,
            beta1 = v_beta1, beta2 = v_beta2, phi1 = v_phi1, phi2 = v_phi2,
            phi3 = v_phi3, deltaI = v_deltaI, omegaR1 = v_omegaR1, omegaR2 = v_omegaR2,
            etaE = v_etaE, etaC = v_etaC, etaH = v_etaH, etaI = v_etaI,
            kel = v_kel, k_metabolism = v_k_metabolism, k_clearance = v_k_clearance,
            alphaA = v_alphaA, deltaA = v_deltaA, kappaQ = v_kappaQ,
            lambdaQ = v_lambdaQ, kappaS = v_kappaS, deltaS = v_deltaS,
            gamma = v_gamma, deltaP = v_deltaP, mu = v_mu, nu = v_nu,
            deltaG = v_deltaG, kappaM = v_kappaM, deltaM = v_deltaM,
            kappaH = v_kappaH, deltaH = v_deltaH, rho1 = v_rho1, rho2 = v_rho2,
            alpha_acid = v_alpha_acid \<rparr>
   }"

text \<open>
  The three ordering checks, in the order of the source. Each check reads the values the
  previous check may have rewritten. The messages are the source's, with the Greek
  letters and subscripts spelled in ASCII.
\<close>

definition enforce_constraints :: "parameter_set \<Rightarrow> parameter_set \<times> string list" where
  "enforce_constraints params0 =
     (let violations0 = [];
          (params1, violations1) =
            (if lambda1 params0 \<le> lambda2 params0
             then (params0\<lparr>lambda2 := lambda1 params0 * 0.99\<rparr>,
                   violations0 @ [''lambda_1 must be > lambda_2''])
             else (params0, violations0));
          (params2, violations2) =
            (if lambda2 params1 \<le> lambdaR1 params1
             then (params1\<lparr>lambdaR1 := lambda2 params1 * 0.99\<rparr>,
                   violations1 @ [''lambda_2 must be > lambda_R1''])
             else (params1, violations1));
          (params3, violations3) =
            (if lambdaR1 params2 \<le> lambdaR2 params2
             then (params2\<lparr>lambdaR2 := lambdaR1 params2 * 0.99\<rparr>,
                   violations2 @ [''lambda_R1 must be > lambda_R2''])
             else (params2, violations2))
      in (params3, violations3))"

text \<open>
  The returned dict. The keys \<^verbatim>\<open>imputed_core_panel\<close> and \<^verbatim>\<open>parameter_coverage\<close> are
  present only when a non-empty selector was given: an absent key is \<open>None\<close>.
\<close>

record calculation_result =
  parameters :: parameter_set
  scores :: composite_scores
  organs :: organ_functions
  constraint_violations :: "string list"
  imputed_core_panel :: "bool option"
  parameter_coverage :: "(string \<times> string) list option"

definition calculate_all_parameters ::
    "biomarker_dict \<Rightarrow> string list option \<Rightarrow> calculation_result option" where
  "calculate_all_parameters biomarkers core_markers = do {
     let biomarkers_use = get_biomarkers_for_calculation biomarkers core_markers;
     let imputed = (case core_markers of None \<Rightarrow> False | Some cm \<Rightarrow> length cm > 0);
     scs \<leftarrow> calculate_composite_scores biomarkers_use;
     orgs \<leftarrow> calculate_organ_functions biomarkers_use;
     derived \<leftarrow> derive_parameters biomarkers_use scs orgs;
     let (params, violations) = enforce_constraints derived;
     let out = \<lparr> parameters = params, scores = scs, organs = orgs,
                 constraint_violations = violations,
                 imputed_core_panel = None, parameter_coverage = None \<rparr>;
     Some (if imputed
           then out\<lparr> imputed_core_panel := Some True,
                     parameter_coverage := Some CORE_PANEL_PARAMETER_COVERAGE \<rparr>
           else out)
   }"

subsection \<open>assess_mathematical_stability\<close>

text \<open>
  Python's \<^verbatim>\<open>sum\<close> of a list of booleans counts the true ones. The function returns
  the status and a message; the messages are the source's without their leading symbol.
\<close>

definition assess_mathematical_stability :: "parameter_set \<Rightarrow> string \<times> string" where
  "assess_mathematical_stability params =
     (let v_lambda1 = lambda1 params;
          v_lambda2 = lambda2 params;
          v_beta1 = beta1 params;
          v_phi1 = phi1 params;
          v_K = K params;
          growth_stability = (v_lambda1 > v_lambda2);
          immune_stability = (v_beta1 * 1000 > v_lambda1);
          capacity_stability = (v_K > 1000);
          stability_score =
            sum_list (map of_bool [growth_stability, immune_stability, capacity_stability])
              / (3::real)
      in if stability_score \<ge> 0.67 then
           (''STABLE'', ''Mathematical stability confirmed - reliable predictions expected'')
         else if stability_score \<ge> 0.33 then
           (''MARGINAL'', ''Marginal stability - monitor predictions carefully'')
         else
           (''UNSTABLE'', ''Mathematical instability - recommend frequent monitoring''))"

section \<open>Properties stated by the specification\<close>

text \<open>
  A resolved vector has every key of the catalog populated.
\<close>

definition resolved :: "biomarker_dict \<Rightarrow> bool" where
  "resolved bv \<longleftrightarrow> list_all (\<lambda>k. bv k \<noteq> None) ALL_BIOMARKERS"

text \<open>
  The closed interval \<open>[lo, hi]\<close>, and the documented interval of each entry of
  \<^verbatim>\<open>parameters\<close>: the bounds of the clamp in the formula of the parameter, as listed in
  the specification of the derivation engine and in the comments of the source.
\<close>

definition in_range :: "real \<Rightarrow> real \<Rightarrow> real \<Rightarrow> bool" where
  "in_range lo hi v \<longleftrightarrow> lo \<le> v \<and> v \<le> hi"

definition within_documented_intervals :: "parameter_set \<Rightarrow> bool" where
  "within_documented_intervals p \<longleftrightarrow>
     in_range 0.1 1.0 (param_G p) \<and>
     in_range 0.01 0.15 (lambda1 p) \<and>
     in_range 0.005 0.1 (lambda2 p) \<and>
     in_range 0.003 0.05 (lambdaR1 p) \<and>
     in_range 0.001 0.03 (lambdaR2 p) \<and>
     in_range 100 15000 (K p) \<and>
     in_range 0.001 0.1 (beta1 p) \<and>
     in_range 0.01 0.5 (beta2 p) \<and>
     in_range 0.01 0.2 (phi1 p) \<and>
     in_range 0.005 0.1 (phi2 p) \<and>
     in_range 0.005 0.15 (phi3 p) \<and>
     in_range 0.02 0.3 (deltaI p) \<and>
     in_range 0.0001 0.01 (omegaR1 p) \<and>
     in_range 0.0001 0.008 (omegaR2 p) \<and>
     in_range 0.1 0.95 (etaE p) \<and>
     in_range 0.1 0.95 (etaC p) \<and>
     in_range 0.1 0.95 (etaH p) \<and>
     in_range 0.1 0.95 (etaI p) \<and>
     in_range 0.05 0.3 (kel p) \<and>
     in_range 0.02 0.2 (k_metabolism p) \<and>
     in_range 0.1 0.5 (k_clearance p) \<and>
     in_range 0.001 0.1 (alphaA p) \<and>
     in_range 0.05 0.2 (deltaA p) \<and>
     in_range 0.001 0.05 (kappaQ p) \<and>
     in_range 0.0005 0.02 (lambdaQ p) \<and>
     in_range 0.001 0.04 (kappaS p) \<and>
     in_range 0.02 0.1 (deltaS p) \<and>
     in_range 0.0001 0.01 (gamma p) \<and>
     in_range 0.02 0.1 (deltaP p) \<and>
     in_range 0.001 0.05 (mu p) \<and>
     in_range 0.0001 0.01 (nu p) \<and>
     in_range 0.001 0.05 (deltaG p) \<and>
     in_range 0.001 0.1 (kappaM p) \<and>
     in_range 0.001 0.05 (deltaM p) \<and>
     in_range 0.001 0.1 (kappaH p) \<and>
     in_range 0.01 0.1 (deltaH p) \<and>
     in_range 0.6 0.9 (rho1 p) \<and>
     in_range 0.3 0.6 (rho2 p) \<and>
     in_range 0.01 0.5 (alpha_acid p)"

section \<open>Auxiliary facts\<close>

lemma resolved_lookup:
  "get_biomarkers_for_calculation b cm k =
     (if k \<in> set ALL_BIOMARKERS
      then Some (dict_get b k (dict_get (map_of REFERENCE_VALUES_FOR_IMPUTATION) k 0))
      else None)"
  by (simp add: get_biomarkers_for_calculation_def map_of_map_restrict restrict_map_def)

lemma resolved_get_biomarkers: "resolved (get_biomarkers_for_calculation b cm)"
  by (simp add: resolved_def list_all_iff resolved_lookup)

lemma bind_defined: "m \<noteq> None \<Longrightarrow> Option.bind m f = f (the m)"
  by auto

lemma py_div_max: "0 < c \<Longrightarrow> py_div a (max x c) = Some (a / max x c)"
  by (simp add: py_div_def max_def)

lemma py_div_nonzero: "b \<noteq> 0 \<Longrightarrow> py_div a b = Some (a / b)"
  by (simp add: py_div_def)

lemma in_range_clamp: "lo \<le> hi \<Longrightarrow> in_range lo hi (max lo (min hi x))"
  by (auto simp: in_range_def)

lemma scores_total:
  assumes "resolved bv"
  shows "\<exists>s. calculate_composite_scores bv = Some s"
  using assms unfolding resolved_def ALL_BIOMARKERS_def calculate_composite_scores_def
  by (simp only: list.pred_inject bind_defined Let_def simp_thms option.inject ex_simps)

lemma scores_G_bounds:
  assumes "calculate_composite_scores bv = Some s"
  shows "in_range 0.1 1.0 (G s)"
proof -
  from assms obtain x where "G s = max 0.1 (min 1.0 x)"
    unfolding calculate_composite_scores_def
    by (auto simp only: bind_eq_Some_conv Let_def option.inject composite_scores.select_convs)
  then show ?thesis by (simp only: in_range_clamp) 
qed


lemma clamp_instances:
  "in_range 0.1 1.0 (max 0.1 (min 1.0 x))"
  "in_range 0.01 0.15 (max 0.01 (min 0.15 x))"
  "in_range 0.005 0.1 (max 0.005 (min 0.1 x))"
  "in_range 0.003 0.05 (max 0.003 (min 0.05 x))"
  "in_range 0.001 0.03 (max 0.001 (min 0.03 x))"
  "in_range 100 15000 (max 100 (min 15000 x))"
  "in_range 0.001 0.1 (max 0.001 (min 0.1 x))"
  "in_range 0.01 0.5 (max 0.01 (min 0.5 x))"
  "in_range 0.01 0.2 (max 0.01 (min 0.2 x))"
  "in_range 0.005 0.15 (max 0.005 (min 0.15 x))"
  "in_range 0.02 0.3 (max 0.02 (min 0.3 x))"
  "in_range 0.0001 0.01 (max 0.0001 (min 0.01 x))"
  "in_range 0.0001 0.008 (max 0.0001 (min 0.008 x))"
  "in_range 0.1 0.95 (max 0.1 (min 0.95 x))"
  "in_range 0.05 0.3 (max 0.05 (min 0.3 x))"
  "in_range 0.02 0.2 (max 0.02 (min 0.2 x))"
  "in_range 0.1 0.5 (max 0.1 (min 0.5 x))"
  "in_range 0.05 0.2 (max 0.05 (min 0.2 x))"
  "in_range 0.001 0.05 (max 0.001 (min 0.05 x))"
  "in_range 0.0005 0.02 (max 0.0005 (min 0.02 x))"
  "in_range 0.001 0.04 (max 0.001 (min 0.04 x))"
  "in_range 0.02 0.1 (max 0.02 (min 0.1 x))"
  "in_range 0.01 0.1 (max 0.01 (min 0.1 x))"
  "in_range 0.6 0.9 (max 0.6 (min 0.9 x))"
  "in_range 0.3 0.6 (max 0.3 (min 0.6 x))"
  by (rule in_range_clamp, simp)+

lemma derive_total:
  assumes "resolved bv" and "f_clearance og \<noteq> 0"
  shows "\<exists>p. derive_parameters bv s og = Some p"
  using assms unfolding resolved_def ALL_BIOMARKERS_def derive_parameters_def
  by (simp only: list.pred_inject bind_defined py_div_nonzero Let_def simp_thms bind.bind_lunit
        option.inject ex_simps)

lemma derive_bounds:
  assumes "derive_parameters bv s og = Some p" and "in_range 0.1 1.0 (G s)"
  shows "within_documented_intervals p"
  using assms unfolding derive_parameters_def within_documented_intervals_def
  by (auto simp only: bind_eq_Some_conv Let_def option.inject parameter_set.select_convs
        clamp_instances)


lemma py_div_guarded:
  "py_div 40 (max x 5) = Some (40 / max x 5)"
  "py_div 45 (max x 8) = Some (45 / max x 8)"
  "py_div 1.2 (max x 0.1) = Some (1.2 / max x 0.1)"
  "py_div 1.2 (max x 0.5) = Some (1.2 / max x 0.5)"
  "py_div 20 (max x 5) = Some (20 / max x 5)"
  by (simp_all add: py_div_max)

lemma organs_total:
  assumes "bv ''alt'' \<noteq> None" "bv ''ast'' \<noteq> None" "bv ''bilirubin'' \<noteq> None"
    "bv ''creatinine'' \<noteq> None" "bv ''bun'' \<noteq> None"
  shows "\<exists>og. calculate_organ_functions bv = Some og
           \<and> 0.3 \<le> f_liver og \<and> 0.3 \<le> f_kidney og
           \<and> f_clearance og = f_liver og * f_kidney og"
proof -
  define af where "af = max 0.2 (min 1.2 (40 / max (the (bv ''alt'')) 5))"
  define sf where "sf = max 0.2 (min 1.2 (45 / max (the (bv ''ast'')) 8))"
  define bf where "bf = max 0.5 (min 1.5 (1.2 / max (the (bv ''bilirubin'')) 0.1))"
  define cf where "cf = max 0.3 (min 1.3 (1.2 / max (the (bv ''creatinine'')) 0.5))"
  define uf where "uf = max 0.3 (min 1.3 (20 / max (the (bv ''bun'')) 5))"
  have eq: "calculate_organ_functions bv =
      Some \<lparr> f_liver = (af + sf + bf) / 3, f_kidney = (cf + uf) / 2,
             f_clearance = (af + sf + bf) / 3 * ((cf + uf) / 2) \<rparr>"
    unfolding calculate_organ_functions_def af_def sf_def bf_def cf_def uf_def
    using assms
    by (simp only: bind_defined py_div_guarded bind.bind_lunit Let_def simp_thms)
  have lo: "0.2 \<le> af" "0.2 \<le> sf" "0.5 \<le> bf" "0.3 \<le> cf" "0.3 \<le> uf"
    by (simp_all add: af_def sf_def bf_def cf_def uf_def)
  have "0.3 \<le> (af + sf + bf) / 3" "0.3 \<le> (cf + uf) / 2"
    using lo by simp_all
  then show ?thesis
    by (simp add: eq)
qed

lemma enforce_lambda1: "lambda1 (fst (enforce_constraints p)) = lambda1 p"
  by (simp add: enforce_constraints_def Let_def split_def)

lemma enforce_lambda2:
  "lambda2 (fst (enforce_constraints p)) =
     (if lambda1 p \<le> lambda2 p then lambda1 p * 0.99 else lambda2 p)"
  by (simp add: enforce_constraints_def Let_def split_def)

lemma enforce_lambdaR1:
  "lambdaR1 (fst (enforce_constraints p)) =
     (if lambda2 (fst (enforce_constraints p)) \<le> lambdaR1 p
      then lambda2 (fst (enforce_constraints p)) * 0.99 else lambdaR1 p)"
  by (simp add: enforce_constraints_def Let_def split_def)

lemma enforce_lambdaR2:
  "lambdaR2 (fst (enforce_constraints p)) =
     (if lambdaR1 (fst (enforce_constraints p)) \<le> lambdaR2 p
      then lambdaR1 (fst (enforce_constraints p)) * 0.99 else lambdaR2 p)"
  by (simp add: enforce_constraints_def Let_def split_def)

lemma enforce_frame:
  "fst (enforce_constraints p) =
     p\<lparr> lambda2 := lambda2 (fst (enforce_constraints p)),
        lambdaR1 := lambdaR1 (fst (enforce_constraints p)),
        lambdaR2 := lambdaR2 (fst (enforce_constraints p)) \<rparr>"
  by (simp add: enforce_constraints_def Let_def split_def)

lemma enforce_chain:
  assumes "0 < lambda1 p" "0 < lambda2 p" "0 < lambdaR1 p"
  shows "lambda2 (fst (enforce_constraints p)) < lambda1 (fst (enforce_constraints p))
       \<and> lambdaR1 (fst (enforce_constraints p)) < lambda2 (fst (enforce_constraints p))
       \<and> lambdaR2 (fst (enforce_constraints p)) < lambdaR1 (fst (enforce_constraints p))"
proof -
  let ?q = "fst (enforce_constraints p)"
  have l2: "lambda2 ?q < lambda1 p" "0 < lambda2 ?q"
    using assms by (simp_all add: enforce_lambda2)
  have r1: "lambdaR1 ?q < lambda2 ?q" "0 < lambdaR1 ?q"
    using assms l2 by (simp_all add: enforce_lambdaR1 [of p])
  have r2: "lambdaR2 ?q < lambdaR1 ?q"
    using r1 by (simp add: enforce_lambdaR2 [of p])
  show ?thesis using l2 r1 r2 by (simp add: enforce_lambda1)
qed

lemma enforce_no_violation:
  assumes "lambda2 p < lambda1 p" "lambdaR1 p < lambda2 p" "lambdaR2 p < lambdaR1 p"
  shows "enforce_constraints p = (p, [])"
  using assms by (simp add: enforce_constraints_def Let_def)

lemma within_frame:
  assumes "within_documented_intervals p"
    and "in_range 0.005 0.1 a" "in_range 0.003 0.05 b" "in_range 0.001 0.03 c"
  shows "within_documented_intervals (p\<lparr> lambda2 := a, lambdaR1 := b, lambdaR2 := c \<rparr>)"
  using assms by (simp add: within_documented_intervals_def)

lemma enforce_bounds:
  assumes "within_documented_intervals p"
  shows "within_documented_intervals (fst (enforce_constraints p))"
proof -
  let ?q = "fst (enforce_constraints p)"
  have b: "in_range 0.01 0.15 (lambda1 p)" "in_range 0.005 0.1 (lambda2 p)"
     "in_range 0.003 0.05 (lambdaR1 p)" "in_range 0.001 0.03 (lambdaR2 p)"
    using assms by (simp_all add: within_documented_intervals_def)
  have l2: "in_range 0.005 0.1 (lambda2 ?q)"
    using b by (simp add: enforce_lambda2 in_range_def)
  have r1: "in_range 0.003 0.05 (lambdaR1 ?q)"
    using b l2 by (simp add: enforce_lambdaR1 [of p] in_range_def)
  have r2: "in_range 0.001 0.03 (lambdaR2 ?q)"
    using b r1 by (simp add: enforce_lambdaR2 [of p] in_range_def)
  show ?thesis
    using within_frame [OF assms l2 r1 r2] enforce_frame [of p] by simp
qed


lemma calculate_all_parameters_result:
  "\<exists>scs orgs derived out.
     calculate_composite_scores (get_biomarkers_for_calculation b cm) = Some scs \<and>
     calculate_organ_functions (get_biomarkers_for_calculation b cm) = Some orgs \<and>
     derive_parameters (get_biomarkers_for_calculation b cm) scs orgs = Some derived \<and>
     within_documented_intervals derived \<and>
     calculate_all_parameters b cm = Some out \<and>
     parameters out = fst (enforce_constraints derived) \<and>
     scores out = scs \<and> organs out = orgs \<and>
     constraint_violations out = snd (enforce_constraints derived) \<and>
     imputed_core_panel out =
       (if (case cm of None \<Rightarrow> False | Some l \<Rightarrow> 0 < length l) then Some True else None) \<and>
     parameter_coverage out =
       (if (case cm of None \<Rightarrow> False | Some l \<Rightarrow> 0 < length l)
        then Some CORE_PANEL_PARAMETER_COVERAGE else None)"
proof -
  let ?bv = "get_biomarkers_for_calculation b cm"
  have res: "resolved ?bv"
    by (rule resolved_get_biomarkers)
  obtain scs where s: "calculate_composite_scores ?bv = Some scs"
    using scores_total [OF res] by blast
  have keys: "?bv ''alt'' \<noteq> None" "?bv ''ast'' \<noteq> None" "?bv ''bilirubin'' \<noteq> None"
      "?bv ''creatinine'' \<noteq> None" "?bv ''bun'' \<noteq> None"
    using res unfolding resolved_def ALL_BIOMARKERS_def
    by (simp_all only: list.pred_inject simp_thms)
  obtain orgs where o: "calculate_organ_functions ?bv = Some orgs"
      and pos: "0.3 \<le> f_liver orgs" "0.3 \<le> f_kidney orgs"
      and cl: "f_clearance orgs = f_liver orgs * f_kidney orgs"
    using organs_total [OF keys] by blast
  have "0 < f_liver orgs" "0 < f_kidney orgs"
    using pos by simp_all
  then have nz: "f_clearance orgs \<noteq> 0"
    by (simp add: cl)
  obtain derived where d: "derive_parameters ?bv scs orgs = Some derived"
    using derive_total [OF res nz] by blast
  have w: "within_documented_intervals derived"
    using derive_bounds [OF d scores_G_bounds [OF s]] .
  show ?thesis
    using s o d w by (simp add: calculate_all_parameters_def Let_def split_def)
qed

lemma within_positive:
  assumes "within_documented_intervals p"
  shows "0 < lambda1 p" "0 < lambda2 p" "0 < lambdaR1 p"
  using assms by (simp_all add: within_documented_intervals_def in_range_def)

lemma within_immune:
  assumes "within_documented_intervals p"
  shows "lambda1 p < beta1 p * 1000"
  using assms by (simp add: within_documented_intervals_def in_range_def)

lemma enforce_etaH: "etaH (fst (enforce_constraints p)) = etaH p"
  by (simp add: enforce_constraints_def Let_def split_def)

lemma enforce_K: "K (fst (enforce_constraints p)) = K p"
  by (simp add: enforce_constraints_def Let_def split_def)

lemma derive_etaH:
  assumes "derive_parameters bv s og = Some p" and "bv ''her2_circ'' = Some 0"
  shows "etaH p = 0.1"
proof -
  from assms(1) obtain hc hm where "bv ''her2_circ'' = Some hc"
    and "etaH p = max 0.1 (min 0.95 (min 1.0 (hc / 5.0) * (1 - 0.6 * (hm / 10))
            * ((f_liver og + f_kidney og) / 2) * (1 - 0.5 * f_resist2 s)))"
    unfolding derive_parameters_def
    by (auto simp only: bind_eq_Some_conv Let_def option.inject parameter_set.select_convs)
  with assms(2) show ?thesis by simp
qed

lemma derive_K:
  assumes "derive_parameters bv s og = Some p"
  shows "K p = max 100 (min 15000 (s_tumor s * 2000))"
  using assms unfolding derive_parameters_def
  by (auto simp only: bind_eq_Some_conv Let_def option.inject parameter_set.select_convs)

lemma scores_s_tumor:
  assumes "calculate_composite_scores bv = Some s"
  shows "s_tumor s = (1/5) * (the (bv ''ca153'') / 31.3 + the (bv ''ca2729'') / 38
            + the (bv ''cea'') / 3.0 + the (bv ''ctc'') / 5 + the (bv ''ctdna'') / 1.0)"
  using assms unfolding calculate_composite_scores_def
  by (auto simp only: bind_eq_Some_conv Let_def option.inject composite_scores.select_convs
        option.sel)

text \<open>
  What \<^verbatim>\<open>assess_mathematical_stability\<close> computes: the score is the number of true
  heuristics over 3, and \<open>2/3 < 0.67\<close>, \<open>0.33 \<le> 1/3\<close>.
\<close>

lemma assess_status:
  "fst (assess_mathematical_stability p) =
     (if lambda2 p < lambda1 p \<and> lambda1 p < beta1 p * 1000 \<and> 1000 < K p then ''STABLE''
      else if lambda2 p < lambda1 p \<or> lambda1 p < beta1 p * 1000 \<or> 1000 < K p
      then ''MARGINAL'' else ''UNSTABLE'')"
  by (simp add: assess_mathematical_stability_def Let_def)

text \<open>The reference table covers the catalog, key by key, with non-negative values.\<close>

lemma reference_keys: "map fst REFERENCE_VALUES_FOR_IMPUTATION = ALL_BIOMARKERS"
  by (simp add: REFERENCE_VALUES_FOR_IMPUTATION_def ALL_BIOMARKERS_def)

lemma reference_nonneg: "list_all (\<lambda>(k, r). 0 \<le> r) REFERENCE_VALUES_FOR_IMPUTATION"
  by (simp add: REFERENCE_VALUES_FOR_IMPUTATION_def)

lemma reference_defined:
  assumes "k \<in> set ALL_BIOMARKERS"
  shows "\<exists>r. map_of REFERENCE_VALUES_FOR_IMPUTATION k = Some r \<and> 0 \<le> r"
proof -
  from assms have "k \<in> fst ` set REFERENCE_VALUES_FOR_IMPUTATION"
    by (simp flip: reference_keys)
  then obtain r where r: "map_of REFERENCE_VALUES_FOR_IMPUTATION k = Some r"
    by (metis map_of_eq_None_iff not_None_eq)
  then have "(k, r) \<in> set REFERENCE_VALUES_FOR_IMPUTATION"
    by (rule map_of_SomeD)
  with reference_nonneg have "0 \<le> r"
    by (auto simp: list_all_iff)
  with r show ?thesis by blast
qed

lemma reference_zeros:
  "map fst (filter (\<lambda>(k, r). r = 0) REFERENCE_VALUES_FOR_IMPUTATION) =
     [''esr1_mutations'', ''brca'', ''pik3ca'', ''tp53'', ''her2_mutations'']"
  by (simp add: REFERENCE_VALUES_FOR_IMPUTATION_def)

lemma catalog_distinct: "distinct ALL_BIOMARKERS"
  by (simp add: ALL_BIOMARKERS_def)

lemma catalog_length: "length ALL_BIOMARKERS = 47"
  by (simp add: ALL_BIOMARKERS_def)

section \<open>The claims\<close>

subsection \<open>C1: panel restriction\<close>

text \<open>
  C1. The claim: with a non-empty panel selector, every key that is not in the selector
  is resolved to its catalog reference value, whatever the caller supplied for it. The
  docstring of \<^verbatim>\<open>get_biomarkers_for_calculation\<close> says the same. The code does not do
  it: the branch for a non-empty selector never reads the selector. Evaluated on the
  15-key core panel with \<^verbatim>\<open>vegf = 9999\<close> supplied: \<^verbatim>\<open>vegf\<close> is not in the selector, its
  reference value is 200, and the resolved value is the supplied 9999.
\<close>

theorem excluded_key_taken_from_user:
  "''vegf'' \<notin> set [''ca153'', ''cd8'', ''pik3ca'', ''albumin'', ''cea'', ''cd4'',
      ''esr1_protein'', ''il10'', ''glucose'', ''her2_mutations'',
      ''tk1'', ''nk'', ''lactate'', ''mdr1'', ''ifn_gamma'']
   \<and> map_of REFERENCE_VALUES_FOR_IMPUTATION ''vegf'' = Some 200
   \<and> get_biomarkers_for_calculation [''vegf'' \<mapsto> 9999]
        (Some [''ca153'', ''cd8'', ''pik3ca'', ''albumin'', ''cea'', ''cd4'',
      ''esr1_protein'', ''il10'', ''glucose'', ''her2_mutations'',
      ''tk1'', ''nk'', ''lactate'', ''mdr1'', ''ifn_gamma'']) ''vegf'' = Some 9999"
  by (simp add: resolved_lookup ALL_BIOMARKERS_def REFERENCE_VALUES_FOR_IMPUTATION_def
        dict_get_def)

subsection \<open>C2: ordering\<close>

text \<open>
  C2 (ordering invariant). For every input biomarker map and every selector,
  \<^verbatim>\<open>calculate_all_parameters\<close> returns, and the parameters it returns after the
  constraint enforcement satisfy the strict chain
  \<open>lambda1 > lambda2 > lambdaR1 > lambdaR2\<close>. The input is arbitrary: nothing is assumed
  about the values, so inputs whose raw formula outputs violate the ordering are covered.
\<close>

theorem ordering_after_enforcement:
  "\<exists>out. calculate_all_parameters b cm = Some out
      \<and> lambda1 (parameters out) > lambda2 (parameters out)
      \<and> lambda2 (parameters out) > lambdaR1 (parameters out)
      \<and> lambdaR1 (parameters out) > lambdaR2 (parameters out)"
proof -
  obtain derived out where w: "within_documented_intervals derived"
    and out: "calculate_all_parameters b cm = Some out"
    and p: "parameters out = fst (enforce_constraints derived)"
    using calculate_all_parameters_result [of b cm] by blast
  show ?thesis
    using enforce_chain [OF within_positive [OF w]] by (simp add: out p)
qed

subsection \<open>C3: bounds\<close>

text \<open>
  C3 (bounds invariant). For every input biomarker map and every selector,
  \<^verbatim>\<open>calculate_all_parameters\<close> returns, and every entry of the returned parameters, the
  three growth rates that the constraint repair may have rewritten included, lies in its
  documented closed interval.
\<close>

theorem bounds_after_enforcement:
  "\<exists>out. calculate_all_parameters b cm = Some out
      \<and> within_documented_intervals (parameters out)"
proof -
  obtain derived out where w: "within_documented_intervals derived"
    and out: "calculate_all_parameters b cm = Some out"
    and p: "parameters out = fst (enforce_constraints derived)"
    using calculate_all_parameters_result [of b cm] by blast
  show ?thesis
    using enforce_bounds [OF w] by (simp add: out p)
qed

subsection \<open>C4: idempotence of the repair\<close>

text \<open>
  C4. For every parameter set that \<^verbatim>\<open>calculate_all_parameters\<close> returns, running the
  three ordering checks again rewrites nothing and appends no violation record: the
  checks return the same parameters and the empty list.
\<close>

theorem enforcement_idempotent:
  "\<exists>out. calculate_all_parameters b cm = Some out
      \<and> enforce_constraints (parameters out) = (parameters out, [])"
proof -
  obtain derived out where w: "within_documented_intervals derived"
    and out: "calculate_all_parameters b cm = Some out"
    and p: "parameters out = fst (enforce_constraints derived)"
    using calculate_all_parameters_result [of b cm] by blast
  have "enforce_constraints (fst (enforce_constraints derived))
          = (fst (enforce_constraints derived), [])"
    using enforce_chain [OF within_positive [OF w]] by (intro enforce_no_violation) simp_all
  then show ?thesis
    by (simp add: out p)
qed

subsection \<open>C5: the stability thresholds\<close>

text \<open>
  C5. The claim: \<^verbatim>\<open>assess_mathematical_stability\<close> returns STABLE exactly when at least
  two of the three heuristics hold, MARGINAL when at least one holds, UNSTABLE otherwise.
  The code compares the score, the number of true heuristics over 3, with 0.67, and
  \<open>2/3 < 0.67\<close>: with two heuristics out of three it returns MARGINAL. Evaluated on the
  parameters computed from the empty input (every biomarker at its reference value): the
  growth and the immune heuristics hold, \<open>K = 900\<close> fails the capacity heuristic, and the
  status is MARGINAL.
\<close>

theorem two_of_three_is_marginal:
  "\<exists>out. calculate_all_parameters Map.empty None = Some out
      \<and> lambda2 (parameters out) < lambda1 (parameters out)
      \<and> lambda1 (parameters out) < beta1 (parameters out) * 1000
      \<and> K (parameters out) = 900
      \<and> assess_mathematical_stability (parameters out) =
          (''MARGINAL'', ''Marginal stability - monitor predictions carefully'')"
proof -
  let ?bv = "get_biomarkers_for_calculation Map.empty None"
  obtain scs orgs derived out
    where s: "calculate_composite_scores ?bv = Some scs"
    and d: "derive_parameters ?bv scs orgs = Some derived"
    and w: "within_documented_intervals derived"
    and out: "calculate_all_parameters Map.empty None = Some out"
    and p: "parameters out = fst (enforce_constraints derived)"
    using calculate_all_parameters_result [of Map.empty None] by blast
  have growth: "lambda2 (parameters out) < lambda1 (parameters out)"
    using enforce_chain [OF within_positive [OF w]] by (simp add: p)
  have immune: "lambda1 (parameters out) < beta1 (parameters out) * 1000"
    using within_immune [OF enforce_bounds [OF w]] by (simp add: p)
  have "s_tumor scs = 0.45"
    by (simp add: scores_s_tumor [OF s] resolved_lookup ALL_BIOMARKERS_def
          REFERENCE_VALUES_FOR_IMPUTATION_def dict_get_def)
  then have capacity: "K (parameters out) = 900"
    by (simp add: p enforce_K derive_K [OF d])
  show ?thesis
    using growth immune capacity
    by (simp add: out assess_mathematical_stability_def Let_def)
qed

subsection \<open>C6: full-panel imputation\<close>

text \<open>
  C6, as stated: without a selector, every absent key is set to its catalog reference
  value, which is never zero. The reference value of \<^verbatim>\<open>pik3ca\<close> is 0.0: on the empty
  input the key is absent and is resolved to zero.
\<close>

theorem absent_key_resolved_to_zero:
  "Map.empty ''pik3ca'' = (None :: real option)
   \<and> get_biomarkers_for_calculation Map.empty None ''pik3ca'' = Some 0"
  by (simp add: resolved_lookup ALL_BIOMARKERS_def REFERENCE_VALUES_FOR_IMPUTATION_def
        dict_get_def)

text \<open>
  C6, amended. Without a selector (absent or empty), the resolved vector has exactly the
  47 keys of the catalog; it keeps every key of the catalog that the user supplied at the
  given value; it sets every absent key to its catalog reference value, which is
  non-negative, and zero exactly for \<^verbatim>\<open>esr1_mutations\<close>, \<^verbatim>\<open>brca\<close>, \<^verbatim>\<open>pik3ca\<close>, \<^verbatim>\<open>tp53\<close>
  and \<^verbatim>\<open>her2_mutations\<close>; and when the supplied values are non-negative, so is every
  resolved value. (Every value of the model is a real number, hence finite.)
\<close>

theorem full_panel_imputation:
  assumes "cm = None \<or> cm = Some []"
  shows "dom (get_biomarkers_for_calculation b cm) = set ALL_BIOMARKERS
     \<and> card (dom (get_biomarkers_for_calculation b cm)) = 47
     \<and> (\<forall>k \<in> set ALL_BIOMARKERS. \<forall>v. b k = Some v \<longrightarrow>
           get_biomarkers_for_calculation b cm k = Some v)
     \<and> (\<forall>k \<in> set ALL_BIOMARKERS. b k = None \<longrightarrow>
           (\<exists>r. map_of REFERENCE_VALUES_FOR_IMPUTATION k = Some r \<and> 0 \<le> r
              \<and> get_biomarkers_for_calculation b cm k = Some r))
     \<and> map fst (filter (\<lambda>(k, r). r = 0) REFERENCE_VALUES_FOR_IMPUTATION) =
           [''esr1_mutations'', ''brca'', ''pik3ca'', ''tp53'', ''her2_mutations'']
     \<and> ((\<forall>k \<in> set ALL_BIOMARKERS. \<forall>v. b k = Some v \<longrightarrow> 0 \<le> v) \<longrightarrow>
           (\<forall>k \<in> set ALL_BIOMARKERS.
              \<exists>v. get_biomarkers_for_calculation b cm k = Some v \<and> 0 \<le> v))"
proof -
  let ?r = "get_biomarkers_for_calculation b cm"
  have d: "dom ?r = set ALL_BIOMARKERS"
    by (auto simp: resolved_lookup dom_def)
  have c: "card (dom ?r) = 47"
    by (simp add: d distinct_card [OF catalog_distinct] catalog_length)
  have kept: "?r k = Some v" if "k \<in> set ALL_BIOMARKERS" "b k = Some v" for k v
    using that by (simp add: resolved_lookup dict_get_def)
  have imputed: "\<exists>r. map_of REFERENCE_VALUES_FOR_IMPUTATION k = Some r \<and> 0 \<le> r \<and> ?r k = Some r"
    if "k \<in> set ALL_BIOMARKERS" "b k = None" for k
    using that reference_defined [OF that(1)] by (auto simp: resolved_lookup dict_get_def)
  have nonneg: "\<exists>v. ?r k = Some v \<and> 0 \<le> v"
    if "\<forall>k \<in> set ALL_BIOMARKERS. \<forall>v. b k = Some v \<longrightarrow> 0 \<le> v" "k \<in> set ALL_BIOMARKERS" for k
  proof (cases "b k")
    case None
    with imputed [OF that(2)] show ?thesis by blast
  next
    case (Some v)
    with that kept [OF that(2) Some] show ?thesis by blast
  qed
  show ?thesis
    using d c kept imputed nonneg reference_zeros by blast
qed

theorem full_panel_imputation_witness:
  "dom (get_biomarkers_for_calculation [''ca153'' \<mapsto> 45] None) = set ALL_BIOMARKERS
   \<and> card (dom (get_biomarkers_for_calculation [''ca153'' \<mapsto> 45] None)) = 47
   \<and> ''ca153'' \<in> set ALL_BIOMARKERS \<and> [''ca153'' \<mapsto> (45::real)] ''ca153'' = Some 45
   \<and> get_biomarkers_for_calculation [''ca153'' \<mapsto> 45] None ''ca153'' = Some 45
   \<and> ''cea'' \<in> set ALL_BIOMARKERS \<and> [''ca153'' \<mapsto> (45::real)] ''cea'' = None
   \<and> get_biomarkers_for_calculation [''ca153'' \<mapsto> 45] None ''cea'' = Some 1.5
   \<and> (\<exists>v. get_biomarkers_for_calculation [''ca153'' \<mapsto> 45] None ''bun'' = Some v \<and> 0 \<le> v)"
proof -
  let ?b = "[''ca153'' \<mapsto> (45::real)]"
  have h: "(None :: string list option) = None \<or> (None :: string list option) = Some []"
    by simp
  note t = full_panel_imputation [OF h, of ?b]
  have m: "''ca153'' \<in> set ALL_BIOMARKERS" "''cea'' \<in> set ALL_BIOMARKERS"
      "''bun'' \<in> set ALL_BIOMARKERS"
    by (simp_all add: ALL_BIOMARKERS_def)
  have u: "?b ''ca153'' = Some 45" "?b ''cea'' = None"
    by simp_all
  have nn: "\<forall>k \<in> set ALL_BIOMARKERS. \<forall>v. ?b k = Some v \<longrightarrow> 0 \<le> v"
    by (simp split: if_splits)
  have ref: "map_of REFERENCE_VALUES_FOR_IMPUTATION ''cea'' = Some 1.5"
    by (simp add: REFERENCE_VALUES_FOR_IMPUTATION_def)
  from t m(1) u(1) have a: "get_biomarkers_for_calculation ?b None ''ca153'' = Some 45"
    by blast
  from t m(2) u(2) ref have b: "get_biomarkers_for_calculation ?b None ''cea'' = Some 1.5"
    by fastforce
  from t nn m(3) have c: "\<exists>v. get_biomarkers_for_calculation ?b None ''bun'' = Some v \<and> 0 \<le> v"
    by blast
  from t have "dom (get_biomarkers_for_calculation ?b None) = set ALL_BIOMARKERS"
    and "card (dom (get_biomarkers_for_calculation ?b None)) = 47"
    by blast+
  with m u a b c show ?thesis by blast
qed

subsection \<open>C7: the floor guards of the organ functions\<close>

text \<open>
  C7. For every biomarker vector that holds the five organ markers, whatever their values
  (zero included), \<^verbatim>\<open>calculate_organ_functions\<close> returns: none of its five divisions
  divides by zero. The liver and kidney factors it returns are strictly positive, so is
  their product \<^verbatim>\<open>f_clearance\<close>, and the division \<^verbatim>\<open>0.1 / f_clearance\<close> of the \<^verbatim>\<open>kel\<close>
  formula is defined.
\<close>

theorem organ_floor_guards:
  assumes "bv ''alt'' = Some a" "bv ''ast'' = Some s" "bv ''bilirubin'' = Some bi"
    "bv ''creatinine'' = Some c" "bv ''bun'' = Some u"
  shows "\<exists>og. calculate_organ_functions bv = Some og
      \<and> 0 < f_liver og \<and> 0 < f_kidney og
      \<and> f_clearance og = f_liver og * f_kidney og \<and> 0 < f_clearance og
      \<and> py_div 0.1 (f_clearance og) = Some (0.1 / f_clearance og)"
proof -
  have keys: "bv ''alt'' \<noteq> None" "bv ''ast'' \<noteq> None" "bv ''bilirubin'' \<noteq> None"
      "bv ''creatinine'' \<noteq> None" "bv ''bun'' \<noteq> None"
    using assms by simp_all
  obtain og where o: "calculate_organ_functions bv = Some og"
      and lo: "0.3 \<le> f_liver og" "0.3 \<le> f_kidney og"
      and cl: "f_clearance og = f_liver og * f_kidney og"
    using organs_total [OF keys] by blast
  have pos: "0 < f_liver og" "0 < f_kidney og"
    using lo by simp_all
  then have "0 < f_clearance og"
    by (simp add: cl)
  then show ?thesis
    using o pos cl by (simp add: py_div_def)
qed

theorem organ_floor_guards_witness:
  "\<exists>og. calculate_organ_functions
           [''alt'' \<mapsto> 0, ''ast'' \<mapsto> 0, ''bilirubin'' \<mapsto> 0, ''creatinine'' \<mapsto> 0, ''bun'' \<mapsto> 0]
         = Some og
      \<and> 0 < f_liver og \<and> 0 < f_kidney og
      \<and> f_clearance og = f_liver og * f_kidney og \<and> 0 < f_clearance og
      \<and> py_div 0.1 (f_clearance og) = Some (0.1 / f_clearance og)"
  using organ_floor_guards
    [of "[''alt'' \<mapsto> 0, ''ast'' \<mapsto> 0, ''bilirubin'' \<mapsto> 0, ''creatinine'' \<mapsto> 0, ''bun'' \<mapsto> 0]"
        0 0 0 0 0]
  by simp

subsection \<open>C8: no HER2 signal\<close>

text \<open>
  C8. For every input whose resolved vector has \<^verbatim>\<open>her2_mutations = 0\<close> and
  \<^verbatim>\<open>her2_circ = 0\<close>, \<^verbatim>\<open>calculate_all_parameters\<close> returns and \<^verbatim>\<open>etaH\<close> is its lower
  clamp bound 0.1, whatever the other biomarkers are.
\<close>

theorem her2_zero_gives_lower_bound:
  assumes "get_biomarkers_for_calculation b cm ''her2_mutations'' = Some 0"
    and "get_biomarkers_for_calculation b cm ''her2_circ'' = Some 0"
  shows "\<exists>out. calculate_all_parameters b cm = Some out \<and> etaH (parameters out) = 0.1"
proof -
  obtain scs orgs derived out
    where d: "derive_parameters (get_biomarkers_for_calculation b cm) scs orgs = Some derived"
    and out: "calculate_all_parameters b cm = Some out"
    and p: "parameters out = fst (enforce_constraints derived)"
    using calculate_all_parameters_result [of b cm] by blast
  show ?thesis
    using derive_etaH [OF d assms(2)] by (simp add: out p enforce_etaH)
qed

theorem her2_zero_gives_lower_bound_witness:
  "get_biomarkers_for_calculation [''her2_circ'' \<mapsto> 0] None ''her2_mutations'' = Some 0
   \<and> get_biomarkers_for_calculation [''her2_circ'' \<mapsto> 0] None ''her2_circ'' = Some 0
   \<and> (\<exists>out. calculate_all_parameters [''her2_circ'' \<mapsto> 0] None = Some out
          \<and> etaH (parameters out) = 0.1)"
proof -
  have h1: "get_biomarkers_for_calculation [''her2_circ'' \<mapsto> 0] None ''her2_mutations'' = Some 0"
    by (simp add: resolved_lookup ALL_BIOMARKERS_def REFERENCE_VALUES_FOR_IMPUTATION_def
          dict_get_def)
  have h2: "get_biomarkers_for_calculation [''her2_circ'' \<mapsto> 0] None ''her2_circ'' = Some 0"
    by (simp add: resolved_lookup ALL_BIOMARKERS_def dict_get_def)
  show ?thesis
    using h1 h2 her2_zero_gives_lower_bound [OF h1 h2] by simp
qed

subsection \<open>C9: the selector and the numeric result\<close>

text \<open>
  C9. For every user-supplied map and every non-empty selector,
  \<^verbatim>\<open>calculate_all_parameters\<close> with the selector returns the same parameters, scores,
  organ functions and constraint violations as without a selector; the only difference is
  that the keys \<^verbatim>\<open>imputed_core_panel\<close> and \<^verbatim>\<open>parameter_coverage\<close>, absent without a
  selector, are present, with the values True and the static coverage table.
\<close>

theorem selector_has_no_effect:
  assumes "cm \<noteq> []"
  shows "\<exists>full core.
       calculate_all_parameters b None = Some full
     \<and> calculate_all_parameters b (Some cm) = Some core
     \<and> parameters core = parameters full \<and> scores core = scores full
     \<and> organs core = organs full
     \<and> constraint_violations core = constraint_violations full
     \<and> imputed_core_panel full = None \<and> parameter_coverage full = None
     \<and> imputed_core_panel core = Some True
     \<and> parameter_coverage core = Some CORE_PANEL_PARAMETER_COVERAGE"
proof -
  have same: "get_biomarkers_for_calculation b (Some cm) = get_biomarkers_for_calculation b None"
    by (simp add: get_biomarkers_for_calculation_def)
  obtain full where full: "calculate_all_parameters b None = Some full"
    using calculate_all_parameters_result [of b None] by blast
  then show ?thesis
    using assms
    by (auto simp add: calculate_all_parameters_def same Let_def split_def bind_eq_Some_conv)
qed

theorem selector_has_no_effect_witness:
  "[''ca153'', ''cd8'', ''pik3ca'', ''albumin'', ''cea'', ''cd4'',
      ''esr1_protein'', ''il10'', ''glucose'', ''her2_mutations'',
      ''tk1'', ''nk'', ''lactate'', ''mdr1'', ''ifn_gamma''] \<noteq> []
   \<and> (\<exists>full core.
       calculate_all_parameters [''vegf'' \<mapsto> 9999] None = Some full
     \<and> calculate_all_parameters [''vegf'' \<mapsto> 9999] (Some [''ca153'', ''cd8'', ''pik3ca'', ''albumin'', ''cea'', ''cd4'',
      ''esr1_protein'', ''il10'', ''glucose'', ''her2_mutations'',
      ''tk1'', ''nk'', ''lactate'', ''mdr1'', ''ifn_gamma'']) = Some core
     \<and> parameters core = parameters full \<and> scores core = scores full
     \<and> organs core = organs full
     \<and> constraint_violations core = constraint_violations full
     \<and> imputed_core_panel full = None \<and> parameter_coverage full = None
     \<and> imputed_core_panel core = Some True
     \<and> parameter_coverage core = Some CORE_PANEL_PARAMETER_COVERAGE)"
proof -
  have h: "[''ca153'', ''cd8'', ''pik3ca'', ''albumin'', ''cea'', ''cd4'',
      ''esr1_protein'', ''il10'', ''glucose'', ''her2_mutations'',
      ''tk1'', ''nk'', ''lactate'', ''mdr1'', ''ifn_gamma''] \<noteq> []"
    by simp
  show ?thesis
    using h selector_has_no_effect [OF h, of "[''vegf'' \<mapsto> 9999]"] by blast
qed

subsection \<open>C10: the status of a computed parameter set\<close>

text \<open>
  C10. For every parameter set that \<^verbatim>\<open>calculate_all_parameters\<close> returns,
  \<^verbatim>\<open>assess_mathematical_stability\<close> does not return UNSTABLE: the enforcement makes
  \<open>lambda1 > lambda2\<close>, so the growth heuristic holds, the score is at least \<open>1/3\<close>, and
  the status is STABLE or MARGINAL.
\<close>

theorem never_unstable:
  "\<exists>out. calculate_all_parameters b cm = Some out
      \<and> lambda2 (parameters out) < lambda1 (parameters out)
      \<and> fst (assess_mathematical_stability (parameters out)) \<noteq> ''UNSTABLE''
      \<and> (fst (assess_mathematical_stability (parameters out)) = ''STABLE''
         \<or> fst (assess_mathematical_stability (parameters out)) = ''MARGINAL'')"
proof -
  obtain derived out where w: "within_documented_intervals derived"
    and out: "calculate_all_parameters b cm = Some out"
    and p: "parameters out = fst (enforce_constraints derived)"
    using calculate_all_parameters_result [of b cm] by blast
  have "lambda2 (parameters out) < lambda1 (parameters out)"
    using enforce_chain [OF within_positive [OF w]] by (simp add: p)
  then show ?thesis
    by (simp add: out assess_status)
qed

end
